theory Spec2Isabelle
  imports Complex_Main
begin

section \<open>The simulation core of FlappyBird3D\<close>

text \<open>
  The component keeps the simulation in React state (\<open>bird\<close>, \<open>gameState\<close>, \<open>score\<close>,
  \<open>highScore\<close>) and in refs (\<open>pipesRef\<close>, \<open>lastPipeTime\<close>, \<open>clockRef\<close>). The model
  below passes that state explicitly. Scene, mesh and DOM code has no effect on the
  simulation and is left out; a pipe's \<open>mesh\<close> field is dropped for the same reason.

  JavaScript numbers are modelled as exact reals: every constant of the simulation except
  the tilt factor \<open>0.05\<close> is a dyadic rational, and no property below depends on rounding.
  \<open>Date.now()\<close> yields whole milliseconds and is an \<open>int\<close>; the score is a counter
  that only grows or is reset, a \<open>nat\<close>.
\<close>

subsection \<open>Data\<close>

record pipe =
  x :: real
  gapY :: real
  passed :: bool

record bird =
  y :: real
  velocity :: real
  rotation :: real

datatype game_state = Waiting | Playing | GameOver

record game =
  bird :: bird
  gameState :: game_state
  score :: nat
  highScore :: nat
  pipes :: "pipe list"
  lastPipeTime :: int
  clockReady :: bool

text \<open>
  \<open>pipes\<close> is \<open>pipesRef.current\<close>; \<open>clockReady\<close> says that \<open>clockRef.current\<close>
  is not null.
\<close>

subsection \<open>Constants\<close>

definition GAME_HEIGHT :: real where "GAME_HEIGHT = 600"
definition GAME_WIDTH :: real where "GAME_WIDTH = 400"
definition BIRD_SIZE :: real where "BIRD_SIZE = 20"
definition PIPE_WIDTH :: real where "PIPE_WIDTH = 50"
definition PIPE_GAP :: real where "PIPE_GAP = 140"
definition GRAVITY :: real where "GRAVITY = 0.25"
definition JUMP_FORCE :: real where "JUMP_FORCE = -6"
definition PIPE_SPEED :: real where "PIPE_SPEED = 1.5"
definition MAX_VELOCITY :: real where "MAX_VELOCITY = 6"

text \<open>The two locals of \<open>checkCollision\<close>.\<close>

definition birdX :: real where "birdX = - GAME_WIDTH / 4"
definition birdRadius :: real where "birdRadius = BIRD_SIZE / 2"

subsection \<open>checkCollision\<close>

text \<open>
  Lines 220 to 240. The \<open>for\<close> loop over \<open>pipesRef.current\<close>: it returns \<open>true\<close> at the first pipe whose
  horizontal extent meets the bird's and whose gap the bird is wholly above or below.
\<close>

fun checkCollision_loop :: "pipe list \<Rightarrow> real \<Rightarrow> bool" where
  "checkCollision_loop [] birdY = False"
| "checkCollision_loop (p # ps) birdY =
     (if x p - PIPE_WIDTH / 2 < birdX + birdRadius \<and> x p + PIPE_WIDTH / 2 > birdX - birdRadius
      then (let gapTop = gapY p - PIPE_GAP / 2; gapBottom = gapY p + PIPE_GAP / 2
            in if birdY + birdRadius < gapTop \<or> birdY - birdRadius > gapBottom then True
               else checkCollision_loop ps birdY)
      else checkCollision_loop ps birdY)"

definition checkCollision :: "pipe list \<Rightarrow> real \<Rightarrow> bool" where
  "checkCollision ps birdY =
     (if birdY > 230 \<or> birdY < -230 then True else checkCollision_loop ps birdY)"

subsection \<open>gameLoop\<close>

text \<open>Lines 248 to 256: the bird computed at the head of the \<open>setBird\<close> updater.\<close>

definition newBird :: "bird \<Rightarrow> bird" where
  "newBird prevBird =
     (let newVelocity = min (velocity prevBird + GRAVITY) MAX_VELOCITY;
          newY = y prevBird + newVelocity;
          newRotation = max (- 0.5) (min 0.5 (newVelocity * 0.05))
      in \<lparr>y = newY, velocity = newVelocity, rotation = newRotation\<rparr>)"

text \<open>
  Lines 273 to 293. The callback of \<open>pipesRef.current.filter\<close> moves each pipe, drops it once it is
  beyond the left margin, and otherwise flags it when its right edge is left of the bird.
  The model returns the kept pipes together with the number of \<open>setScore(prev => prev + 1)\<close>
  calls made.
\<close>

fun filterPipes :: "pipe list \<Rightarrow> pipe list \<times> nat" where
  "filterPipes [] = ([], 0)"
| "filterPipes (p # ps) =
     (let p1 = p\<lparr>x := x p - PIPE_SPEED\<rparr>;
          (rest, n) = filterPipes ps
      in if x p1 < - GAME_WIDTH / 2 - PIPE_WIDTH then (rest, n)
         else if \<not> passed p1 \<and> x p1 + PIPE_WIDTH / 2 < - GAME_WIDTH / 4
              then (p1\<lparr>passed := True\<rparr> # rest, Suc n)
              else (p1 # rest, n))"

text \<open>
  Lines 296 to 309: the pipe built when the spawn interval has elapsed; \<open>rnd\<close> is
  \<open>Math.random()\<close>.
\<close>

definition newPipe :: "real \<Rightarrow> pipe" where
  "newPipe rnd =
     (let gapY = rnd * 200 - 100;
          pipeX = GAME_WIDTH / 2 + PIPE_WIDTH
      in \<lparr>x = pipeX, gapY = gapY, passed = False\<rparr>)"

text \<open>
  Lines 242 to 322: one animation frame. \<open>currentTime\<close> is \<open>Date.now()\<close>. The \<open>score\<close> read by the
  \<open>setHighScore\<close> updater is the constant captured by the callback, that is the score
  of the state the frame started from; the increments queued by \<open>setScore\<close> in this
  frame are not in it. \<open>deltaTime\<close> is computed by the source and never used.
\<close>

definition gameLoop :: "int \<Rightarrow> real \<Rightarrow> game \<Rightarrow> game" where
  "gameLoop currentTime rnd s =
     (if gameState s \<noteq> Playing \<or> \<not> clockReady s then s
      else
        let nb = newBird (bird s);
            (kept, inc) = filterPipes (pipes s);
            spawn = (currentTime - lastPipeTime s > 3000);
            ps = (if spawn then kept @ [newPipe rnd] else kept);
            t = (if spawn then currentTime else lastPipeTime s);
            hit = checkCollision ps (y nb)
        in s\<lparr>bird := nb,
             pipes := ps,
             lastPipeTime := t,
             score := score s + inc,
             gameState := (if hit then GameOver else gameState s),
             highScore := (if hit then max (highScore s) (score s) else highScore s)\<rparr>)"

subsection \<open>handleJump\<close>

text \<open>
  Lines 344 to 373. Both tests read the \<open>gameState\<close> captured when the callback was built, so the second
  one does not see the \<open>setGameState('playing')\<close> of the first.
\<close>

definition handleJump :: "game \<Rightarrow> game" where
  "handleJump s =
     (let s1 = (if gameState s = Waiting then s\<lparr>gameState := Playing\<rparr> else s)
      in if gameState s = Playing then s1\<lparr>bird := (bird s1)\<lparr>velocity := JUMP_FORCE\<rparr>\<rparr>
         else if gameState s = GameOver
              then s1\<lparr>bird := \<lparr>y = 0, velocity = 0, rotation = 0\<rparr>,
                     score := 0,
                     pipes := [],
                     lastPipeTime := 0,
                     gameState := Waiting\<rparr>
              else s1)"

subsection \<open>Reachable states\<close>

text \<open>
  The state the component mounts with, and the three things that change it: the scene
  effect creating the clock, an input action, and an animation frame at any time with
  any value \<open>0 \<le> rnd < 1\<close> of the random source.
\<close>

definition initial :: game where
  "initial =
     \<lparr>bird = \<lparr>y = 0, velocity = 0, rotation = 0\<rparr>,
      gameState = Waiting,
      score = 0,
      highScore = 0,
      pipes = [],
      lastPipeTime = 0,
      clockReady = False\<rparr>"

inductive reachable :: "game \<Rightarrow> bool" where
  r_initial: "reachable initial"
| r_clock: "reachable s \<Longrightarrow> reachable (s\<lparr>clockReady := True\<rparr>)"
| r_action: "reachable s \<Longrightarrow> reachable (handleJump s)"
| r_frame: "reachable s \<Longrightarrow> 0 \<le> rnd \<Longrightarrow> rnd < 1 \<Longrightarrow> reachable (gameLoop currentTime rnd s)"

subsection \<open>Runs of the game\<close>

text \<open>
  What happens to a game in progress is a sequence of events: calls of \<open>gameLoop\<close>, each
  with the time and the random value it reads, and input actions. The source calls
  \<open>gameLoop\<close> once per animation frame and once more whenever the effect that owns the
  loop is run again; an event list can hold any such sequence. \<open>play es s\<close> applies the
  events \<open>es\<close> in order, as long as the game is in the Playing state with its clock when
  an event arrives; the last event may end the game. It is \<open>None\<close> when an event finds
  the game in another state.
\<close>

datatype event = Frame int real | Action

fun play :: "event list \<Rightarrow> game \<Rightarrow> game option" where
  "play [] s = Some s"
| "play (Frame currentTime rnd # es) s =
     (if gameState s = Playing \<and> clockReady s then play es (gameLoop currentTime rnd s) else None)"
| "play (Action # es) s =
     (if gameState s = Playing \<and> clockReady s then play es (handleJump s) else None)"

fun frameCount :: "event list \<Rightarrow> nat" where
  "frameCount [] = 0"
| "frameCount (Frame currentTime rnd # es) = Suc (frameCount es)"
| "frameCount (Action # es) = frameCount es"

text \<open>
  \<open>ticks n t rnd\<close> is \<open>n\<close> calls of \<open>gameLoop\<close> in a row, the first at time \<open>t\<close> and each
  7 ms after the one before, all with the random value \<open>rnd\<close>.
\<close>

fun ticks :: "nat \<Rightarrow> int \<Rightarrow> real \<Rightarrow> event list" where
  "ticks 0 t rnd = []"
| "ticks (Suc n) t rnd = Frame t rnd # ticks n (t + 7) rnd"

text \<open>
  A state in mid-flight with one pipe of gap centre \<open>-44\<close> on the field, spawned at time
  \<open>5000\<close>; the traces below run through such states.
\<close>

definition flight :: "bird \<Rightarrow> nat \<Rightarrow> real \<Rightarrow> bool \<Rightarrow> game" where
  "flight b sc px pp =
     \<lparr>bird = b, gameState = Playing, score = sc, highScore = 0,
      pipes = [\<lparr>x = px, gapY = - 44, passed = pp\<rparr>], lastPipeTime = 5000, clockReady = True\<rparr>"

subsection \<open>The life of one pipe\<close>

text \<open>
  \<open>pipeLifetime n p\<close> follows the pipe \<open>p\<close> through \<open>n\<close> frames of \<open>filterPipes\<close>: it
  returns the pipe as it then is, or \<open>None\<close> once it has been dropped, and the number of
  score increments it has caused.
\<close>

fun pipeLifetime :: "nat \<Rightarrow> pipe \<Rightarrow> pipe option \<times> nat" where
  "pipeLifetime 0 p = (Some p, 0)"
| "pipeLifetime (Suc n) p =
     (case filterPipes [p] of
        ([], k) \<Rightarrow> (None, k)
      | (q # _, k) \<Rightarrow> (let (r, m) = pipeLifetime n q in (r, k + m)))"

text \<open>The pipe after \<open>n\<close> frames, as a list: empty once it has been dropped.\<close>

definition survivor :: "nat \<Rightarrow> pipe \<Rightarrow> pipe list" where
  "survivor n p = (case fst (pipeLifetime n p) of None \<Rightarrow> [] | Some q \<Rightarrow> [q])"

text \<open>
  The pipes spawned during a run that starts with spawn time \<open>l\<close>: \<open>spawnScore\<close> adds up
  what each of them contributes to the score in the frames of the run that follow its
  spawn, and \<open>spawnPipes\<close> lists them as they stand at the end of the run.
\<close>

fun spawnScore :: "event list \<Rightarrow> int \<Rightarrow> nat" where
  "spawnScore [] l = 0"
| "spawnScore (Frame currentTime rnd # es) l =
     (if currentTime - l > 3000
      then snd (pipeLifetime (frameCount es) (newPipe rnd)) + spawnScore es currentTime
      else spawnScore es l)"
| "spawnScore (Action # es) l = spawnScore es l"

fun spawnPipes :: "event list \<Rightarrow> int \<Rightarrow> pipe list" where
  "spawnPipes [] l = []"
| "spawnPipes (Frame currentTime rnd # es) l =
     (if currentTime - l > 3000
      then survivor (frameCount es) (newPipe rnd) @ spawnPipes es currentTime
      else spawnPipes es l)"
| "spawnPipes (Action # es) l = spawnPipes es l"

subsection \<open>The frame as a sequence of phases\<close>

text \<open>
  The specification describes the pipe handling of a frame as three passes over the
  whole list: advance, retire, mark passed. They are written here as such, with the
  tests of the source, to be compared with \<open>filterPipes\<close>.
\<close>

definition advance :: "pipe list \<Rightarrow> pipe list" where
  "advance ps = map (\<lambda>p. p\<lparr>x := x p - PIPE_SPEED\<rparr>) ps"

definition retireOffscreen :: "pipe list \<Rightarrow> pipe list" where
  "retireOffscreen ps = filter (\<lambda>p. \<not> x p < - GAME_WIDTH / 2 - PIPE_WIDTH) ps"

definition crossing :: "pipe \<Rightarrow> bool" where
  "crossing p = (\<not> passed p \<and> x p + PIPE_WIDTH / 2 < - GAME_WIDTH / 4)"

definition markPassed :: "pipe list \<Rightarrow> pipe list \<times> nat" where
  "markPassed ps =
     (map (\<lambda>p. if crossing p then p\<lparr>passed := True\<rparr> else p) ps, length (filter crossing ps))"

subsection \<open>An invariant of the pipe list\<close>

text \<open>
  No pipe lies beyond the left margin, and every pipe whose right edge is left of the
  bird has been flagged.
\<close>

definition pipes_ok :: "pipe list \<Rightarrow> bool" where
  "pipes_ok ps =
     (\<forall>p\<in>set ps. - GAME_WIDTH / 2 - PIPE_WIDTH \<le> x p
        \<and> (x p + PIPE_WIDTH / 2 < - GAME_WIDTH / 4 \<longrightarrow> passed p))"

section \<open>Basic facts\<close>

lemmas game_consts =
  GAME_HEIGHT_def GAME_WIDTH_def BIRD_SIZE_def PIPE_WIDTH_def PIPE_GAP_def GRAVITY_def
  JUMP_FORCE_def PIPE_SPEED_def MAX_VELOCITY_def birdX_def birdRadius_def

subsection \<open>Collision test\<close>


lemma checkCollision_loop_append:
  "checkCollision_loop (ps @ qs) birdY \<longleftrightarrow> checkCollision_loop ps birdY \<or> checkCollision_loop qs birdY"
  by (induction ps) (simp_all add: Let_def)

lemma checkCollision_spawned:
  "checkCollision (ps @ [newPipe rnd]) birdY = checkCollision ps birdY"
  by (simp add: checkCollision_def checkCollision_loop_append) (simp add: newPipe_def Let_def game_consts)

subsection \<open>One frame\<close>

lemma gameLoop_idle:
  "gameState s \<noteq> Playing \<or> \<not> clockReady s \<Longrightarrow> gameLoop currentTime rnd s = s"
  by (simp add: gameLoop_def)

lemma gameLoop_fields:
  assumes "gameState s = Playing" and "clockReady s"
  shows "bird (gameLoop currentTime rnd s) = newBird (bird s)"
    and "pipes (gameLoop currentTime rnd s) =
           fst (filterPipes (pipes s)) @ (if currentTime - lastPipeTime s > 3000 then [newPipe rnd] else [])"
    and "lastPipeTime (gameLoop currentTime rnd s) =
           (if currentTime - lastPipeTime s > 3000 then currentTime else lastPipeTime s)"
    and "score (gameLoop currentTime rnd s) = score s + snd (filterPipes (pipes s))"
    and "gameState (gameLoop currentTime rnd s) =
           (if checkCollision (pipes (gameLoop currentTime rnd s)) (y (newBird (bird s)))
            then GameOver else Playing)"
    and "highScore (gameLoop currentTime rnd s) =
           (if checkCollision (pipes (gameLoop currentTime rnd s)) (y (newBird (bird s)))
            then max (highScore s) (score s) else highScore s)"
    and "clockReady (gameLoop currentTime rnd s)"
  using assms by (simp_all add: gameLoop_def Let_def split: prod.splits)

lemma gameLoop_not_Waiting:
  "gameState s \<noteq> Waiting \<Longrightarrow> gameState (gameLoop currentTime rnd s) \<noteq> Waiting"
  by (cases "gameState s = Playing \<and> clockReady s") (auto simp: gameLoop_fields gameLoop_idle)

subsection \<open>Pipes are handled one by one\<close>

lemma filterPipes_single:
  "filterPipes [p] =
     (if x p - PIPE_SPEED < - GAME_WIDTH / 2 - PIPE_WIDTH then ([], 0)
      else if \<not> passed p \<and> x p - PIPE_SPEED + PIPE_WIDTH / 2 < - GAME_WIDTH / 4
           then ([p\<lparr>x := x p - PIPE_SPEED, passed := True\<rparr>], 1)
           else ([p\<lparr>x := x p - PIPE_SPEED\<rparr>], 0))"
  by (simp add: Let_def)

lemma filterPipes_Cons:
  "filterPipes (p # ps) =
     (fst (filterPipes [p]) @ fst (filterPipes ps), snd (filterPipes [p]) + snd (filterPipes ps))"
  by (simp add: Let_def split: prod.splits)

lemma filterPipes_score_sum: "snd (filterPipes ps) = (\<Sum>p\<leftarrow>ps. snd (filterPipes [p]))"
proof (induction ps)
  case Nil
  show ?case by simp
next
  case (Cons p ps)
  have "snd (filterPipes (p # ps)) = snd (filterPipes [p]) + snd (filterPipes ps)"
    by (subst filterPipes_Cons) simp
  with Cons show ?case by simp
qed

lemma filterPipes_phases: "filterPipes ps = markPassed (retireOffscreen (advance ps))"
  by (induction ps) (auto simp: advance_def retireOffscreen_def markPassed_def crossing_def Let_def)

subsection \<open>The life of one pipe\<close>

lemma pipeLifetime_Suc:
  "pipeLifetime (Suc n) p =
     (if x p - PIPE_SPEED < - GAME_WIDTH / 2 - PIPE_WIDTH then (None, 0)
      else if \<not> passed p \<and> x p - PIPE_SPEED + PIPE_WIDTH / 2 < - GAME_WIDTH / 4
           then (fst (pipeLifetime n (p\<lparr>x := x p - PIPE_SPEED, passed := True\<rparr>)),
                 1 + snd (pipeLifetime n (p\<lparr>x := x p - PIPE_SPEED, passed := True\<rparr>)))
           else pipeLifetime n (p\<lparr>x := x p - PIPE_SPEED\<rparr>))"
  by (simp add: Let_def split: prod.splits)

lemma pipeLifetime_passed: "passed p \<Longrightarrow> snd (pipeLifetime n p) = 0"
proof (induction n arbitrary: p)
  case 0
  show ?case by simp
next
  case (Suc n)
  have "snd (pipeLifetime n (p\<lparr>x := x p - PIPE_SPEED\<rparr>)) = 0"
    using Suc.prems by (intro Suc.IH) simp
  with Suc.prems show ?case
    by (simp only: pipeLifetime_Suc) simp
qed

lemma pipeLifetime_le_1: "snd (pipeLifetime n p) \<le> 1"
proof (induction n arbitrary: p)
  case 0
  show ?case by simp
next
  case (Suc n)
  have a: "snd (pipeLifetime n (p\<lparr>x := x p - PIPE_SPEED, passed := True\<rparr>)) = 0"
    by (intro pipeLifetime_passed) simp
  have b: "snd (pipeLifetime n (p\<lparr>x := x p - PIPE_SPEED\<rparr>)) \<le> 1"
    by (rule Suc.IH)
  from a b show ?case
    by (simp only: pipeLifetime_Suc) simp
qed

lemma pipeLifetime_removed:
  "fst (pipeLifetime n p) = None \<Longrightarrow> pipeLifetime (n + m) p = pipeLifetime n p"
proof (induction n arbitrary: p)
  case 0
  then show ?case by simp
next
  case (Suc n)
  from Suc.prems show ?case
    by (simp only: pipeLifetime_Suc add_Suc) (auto split: if_splits simp: Suc.IH prod_eq_iff)
qed

text \<open>
  A pipe that has been on the field for \<open>j\<close> frames since it was spawned at \<open>250\<close> is
  counted in the frame that makes it 251.
\<close>

lemma pipeLifetime_fresh:
  "\<not> passed p \<Longrightarrow> x p = 250 - 1.5 * real j \<Longrightarrow> j \<le> 250 \<Longrightarrow>
     snd (pipeLifetime n p) = (if 251 \<le> j + n then 1 else 0)"
proof (induction n arbitrary: p j)
  case 0
  then show ?case by simp
next
  case (Suc n)
  show ?case
  proof (cases "j = 250")
    case True
    have "snd (pipeLifetime n (p\<lparr>x := x p - PIPE_SPEED, passed := True\<rparr>)) = 0"
      by (intro pipeLifetime_passed) simp
    with True Suc.prems show ?thesis
      by (simp only: pipeLifetime_Suc) (simp add: game_consts)
  next
    case False
    with Suc.prems have j: "j < 250" by simp
    have "snd (pipeLifetime n (p\<lparr>x := x p - PIPE_SPEED\<rparr>)) = (if 251 \<le> Suc j + n then 1 else 0)"
    proof (intro Suc.IH)
      show "\<not> passed (p\<lparr>x := x p - PIPE_SPEED\<rparr>)"
        using Suc.prems by simp
      have "x p - 1.5 = 250 - 1.5 * (1 + real j)"
        using Suc.prems(2) by argo
      then show "x (p\<lparr>x := x p - PIPE_SPEED\<rparr>) = 250 - 1.5 * real (Suc j)"
        by (simp add: PIPE_SPEED_def)
      show "Suc j \<le> 250"
        using j by simp
    qed
    with j Suc.prems show ?thesis
      by (simp only: pipeLifetime_Suc) (simp add: game_consts)
  qed
qed

lemma newPipe_lifetime: "snd (pipeLifetime n (newPipe rnd)) = (if 251 \<le> n then 1 else 0)"
  using pipeLifetime_fresh [of "newPipe rnd" 0 n] by (simp add: newPipe_def Let_def game_consts)

subsection \<open>The score of a run\<close>

text \<open>
  What a run adds to the score is what its pipes contribute one by one: those on the
  field at its start and those spawned on the way.
\<close>

lemma filterPipes_count:
  "snd (filterPipes ps) =
     length (filter (\<lambda>p. \<not> passed p \<and> \<not> x p - PIPE_SPEED < - GAME_WIDTH / 2 - PIPE_WIDTH
                           \<and> x p - PIPE_SPEED + PIPE_WIDTH / 2 < birdX) ps)"
  by (induction ps) (auto simp: Let_def birdX_def split: prod.splits)

lemma pipeLifetime_step_score:
  "snd (pipeLifetime (Suc n) p) =
     snd (filterPipes [p]) + (\<Sum>q\<leftarrow>fst (filterPipes [p]). snd (pipeLifetime n q))"
  by (simp only: pipeLifetime_Suc filterPipes_single) simp

lemma survivor_step:
  "survivor (Suc n) p = concat (map (survivor n) (fst (filterPipes [p])))"
  unfolding survivor_def by (simp only: pipeLifetime_Suc filterPipes_single) simp

lemma survivor_0: "concat (map (survivor 0) ps) = ps"
  by (induction ps) (simp_all add: survivor_def)

lemma lifetime_score_0: "(\<Sum>p\<leftarrow>ps. snd (pipeLifetime 0 p)) = 0"
  by (induction ps) simp_all

lemma filterPipes_Cons_fst:
  "fst (filterPipes (p # ps)) = fst (filterPipes [p]) @ fst (filterPipes ps)"
  by (simp add: Let_def split: prod.splits)

lemma filterPipes_Cons_snd:
  "snd (filterPipes (p # ps)) = snd (filterPipes [p]) + snd (filterPipes ps)"
  by (simp add: Let_def split: prod.splits)

lemma lifetime_score_frame:
  "(\<Sum>p\<leftarrow>ps. snd (pipeLifetime (Suc n) p)) =
     snd (filterPipes ps) + (\<Sum>q\<leftarrow>fst (filterPipes ps). snd (pipeLifetime n q))"
proof (induction ps)
  case Nil
  show ?case by simp
next
  case (Cons p ps)
  have head: "snd (pipeLifetime (Suc n) p) =
      snd (filterPipes [p]) + (\<Sum>q\<leftarrow>fst (filterPipes [p]). snd (pipeLifetime n q))"
    by (rule pipeLifetime_step_score)
  have "(\<Sum>r\<leftarrow>p # ps. snd (pipeLifetime (Suc n) r)) =
          snd (pipeLifetime (Suc n) p) + (\<Sum>r\<leftarrow>ps. snd (pipeLifetime (Suc n) r))"
    by simp
  also have "\<dots> = snd (filterPipes [p]) + (\<Sum>q\<leftarrow>fst (filterPipes [p]). snd (pipeLifetime n q))
                   + (snd (filterPipes ps) + (\<Sum>q\<leftarrow>fst (filterPipes ps). snd (pipeLifetime n q)))"
    by (simp only: head Cons.IH)
  also have "\<dots> = snd (filterPipes (p # ps))
                   + (\<Sum>q\<leftarrow>fst (filterPipes (p # ps)). snd (pipeLifetime n q))"
    by (simp only: filterPipes_Cons_fst [of p ps] filterPipes_Cons_snd [of p ps] map_append sum_list_append)
  finally show ?case .
qed

lemma survivor_frame:
  "concat (map (survivor (Suc n)) ps) = concat (map (survivor n) (fst (filterPipes ps)))"
proof (induction ps)
  case Nil
  show ?case by simp
next
  case (Cons p ps)
  have "concat (map (survivor (Suc n)) (p # ps)) =
          survivor (Suc n) p @ concat (map (survivor (Suc n)) ps)"
    by simp
  also have "\<dots> =
          concat (map (survivor n) (fst (filterPipes [p]))) @ concat (map (survivor n) (fst (filterPipes ps)))"
    by (simp only: survivor_step Cons.IH)
  also have "\<dots> = concat (map (survivor n) (fst (filterPipes (p # ps))))"
    by (simp only: filterPipes_Cons_fst [of p ps] map_append concat_append)
  finally show ?case .
qed

lemma handleJump_Playing:
  "gameState s = Playing \<Longrightarrow>
     score (handleJump s) = score s \<and> pipes (handleJump s) = pipes s
     \<and> lastPipeTime (handleJump s) = lastPipeTime s"
  by (simp add: handleJump_def Let_def)

lemma play_account:
  "play es s = Some s' \<Longrightarrow>
     score s' = score s + (\<Sum>p\<leftarrow>pipes s. snd (pipeLifetime (frameCount es) p))
                 + spawnScore es (lastPipeTime s)
     \<and> pipes s' = concat (map (survivor (frameCount es)) (pipes s)) @ spawnPipes es (lastPipeTime s)"
proof (induction es arbitrary: s)
  case Nil
  then show ?case by (simp add: survivor_0 lifetime_score_0)
next
  case (Cons e es)
  show ?case
  proof (cases e)
    case (Frame t rnd)
    with Cons.prems have on: "gameState s = Playing" "clockReady s"
      and run: "play es (gameLoop t rnd s) = Some s'"
      by (simp_all split: if_splits)
    note f = gameLoop_fields [OF on, of t rnd]
    note ih = Cons.IH [OF run]
    show ?thesis
    proof (cases "t - lastPipeTime s > 3000")
      case True
      with ih show ?thesis
        unfolding Frame by (simp add: f lifetime_score_frame survivor_frame del: filterPipes.simps pipeLifetime.simps)
    next
      case False
      with ih show ?thesis
        unfolding Frame by (simp add: f lifetime_score_frame survivor_frame del: filterPipes.simps pipeLifetime.simps)
    qed
  next
    case Action
    with Cons.prems have on: "gameState s = Playing"
      and run: "play es (handleJump s) = Some s'"
      by (simp_all split: if_splits)
    from Cons.IH [OF run] handleJump_Playing [OF on] show ?thesis
      unfolding Action by simp
  qed
qed

subsection \<open>Invariants of the reachable states\<close>

lemma filterPipes_ok: "pipes_ok (fst (filterPipes ps))"
  by (induction ps) (auto simp: pipes_ok_def Let_def split: prod.splits)

lemma newPipe_ok: "pipes_ok [newPipe rnd]"
  by (simp add: pipes_ok_def newPipe_def Let_def game_consts)

lemma pipes_ok_append: "pipes_ok (ps @ qs) \<longleftrightarrow> pipes_ok ps \<and> pipes_ok qs"
  by (auto simp: pipes_ok_def)

lemma gameLoop_pipes_ok: "pipes_ok (pipes s) \<Longrightarrow> pipes_ok (pipes (gameLoop currentTime rnd s))"
proof (cases "gameState s = Playing \<and> clockReady s")
  case True
  then show ?thesis
    using newPipe_ok [of rnd]
    by (simp add: gameLoop_fields pipes_ok_append filterPipes_ok) (simp add: pipes_ok_def)
next
  case False
  then show "pipes_ok (pipes s) \<Longrightarrow> ?thesis"
    by (simp add: gameLoop_idle)
qed

lemma handleJump_pipes_ok: "pipes_ok (pipes s) \<Longrightarrow> pipes_ok (pipes (handleJump s))"
  by (cases "gameState s") (simp_all add: handleJump_def Let_def pipes_ok_def)

lemma reachable_pipes_ok: "reachable s \<Longrightarrow> pipes_ok (pipes s)"
proof (induction rule: reachable.induct)
  case r_initial
  show ?case by (simp add: initial_def pipes_ok_def)
next
  case (r_clock s)
  then show ?case by simp
next
  case (r_action s)
  then show ?case by (simp add: handleJump_pipes_ok)
next
  case (r_frame s rnd currentTime)
  then show ?case by (simp add: gameLoop_pipes_ok)
qed

lemma reachable_Waiting:
  "reachable s \<Longrightarrow> gameState s = Waiting \<Longrightarrow>
     score s = 0 \<and> pipes s = [] \<and> lastPipeTime s = 0 \<and> bird s = \<lparr>y = 0, velocity = 0, rotation = 0\<rparr>"
proof (induction rule: reachable.induct)
  case r_initial
  show ?case by (simp add: initial_def)
next
  case (r_clock s)
  then show ?case by simp
next
  case (r_action s)
  then show ?case by (cases "gameState s") (simp_all add: handleJump_def Let_def)
next
  case (r_frame s rnd currentTime)
  have "gameState s = Waiting"
    using r_frame.prems gameLoop_not_Waiting [of s currentTime rnd] by blast
  then show ?case
    using r_frame.IH by (simp add: gameLoop_idle)
qed

lemma handleJump_Playing_funpow:
  "gameState s = Playing \<Longrightarrow>
     gameState ((handleJump ^^ n) s) = Playing \<and> pipes ((handleJump ^^ n) s) = pipes s
     \<and> lastPipeTime ((handleJump ^^ n) s) = lastPipeTime s
     \<and> clockReady ((handleJump ^^ n) s) = clockReady s
     \<and> score ((handleJump ^^ n) s) = score s"
  by (induction n) (simp_all add: handleJump_def Let_def)

subsection \<open>A game played to the first pipe\<close>

text \<open>
  The clock is created, an action starts the game, and the first frame, at time \<open>5000\<close>
  with random value \<open>7 / 25\<close>, spawns a pipe with gap centre \<open>-44\<close>. The player jumps
  after frame 16 and then every 47 frames, which brings the bird back to height \<open>34\<close>
  each time, inside the gap. After frame 251 the pipe stands at \<open>-125\<close>, its right edge
  exactly at the bird's position, not yet flagged.
\<close>

lemma ticks_numeral:
  "ticks (numeral k) t rnd = Frame t rnd # ticks (pred_numeral k) (t + 7) rnd"
  by (simp add: numeral_eq_Suc)

lemmas frame_eval =
  flight_def handleJump_def ticks_numeral gameLoop_def newBird_def newPipe_def
  checkCollision_def Let_def game_consts

lemma trace_start:
  "play (ticks 16 5000 (7 / 25)) (handleJump (initial\<lparr>clockReady := True\<rparr>))
     = Some (flight \<lparr>y = 34, velocity = 4, rotation = 1 / 5\<rparr> 0 (455 / 2) False)"
  by (simp add: initial_def frame_eval)

lemma trace_cycle1:
  "play (Action # ticks 47 5112 (7 / 25)) (flight \<lparr>y = 34, velocity = 4, rotation = 1 / 5\<rparr> 0 (455 / 2) False)
     = Some (flight \<lparr>y = 34, velocity = 23 / 4, rotation = 23 / 80\<rparr> 0 157 False)"
  by (simp add: frame_eval)

lemma trace_cycle2:
  "play (Action # ticks 47 5441 (7 / 25)) (flight \<lparr>y = 34, velocity = 23 / 4, rotation = 23 / 80\<rparr> 0 157 False)
     = Some (flight \<lparr>y = 34, velocity = 23 / 4, rotation = 23 / 80\<rparr> 0 (173 / 2) False)"
  by (simp add: frame_eval)

lemma trace_cycle3:
  "play (Action # ticks 47 5770 (7 / 25)) (flight \<lparr>y = 34, velocity = 23 / 4, rotation = 23 / 80\<rparr> 0 (173 / 2) False)
     = Some (flight \<lparr>y = 34, velocity = 23 / 4, rotation = 23 / 80\<rparr> 0 16 False)"
  by (simp add: frame_eval)

lemma trace_cycle4:
  "play (Action # ticks 47 6099 (7 / 25)) (flight \<lparr>y = 34, velocity = 23 / 4, rotation = 23 / 80\<rparr> 0 16 False)
     = Some (flight \<lparr>y = 34, velocity = 23 / 4, rotation = 23 / 80\<rparr> 0 (- 109 / 2) False)"
  by (simp add: frame_eval)

lemma trace_cycle5:
  "play (Action # ticks 47 6428 (7 / 25)) (flight \<lparr>y = 34, velocity = 23 / 4, rotation = 23 / 80\<rparr> 0 (- 109 / 2) False)
     = Some (flight \<lparr>y = 34, velocity = 23 / 4, rotation = 23 / 80\<rparr> 0 (- 125) False)"
  by (simp add: frame_eval)

text \<open>
  If the player keeps jumping, the pipe is flagged in frame 252 and, 82 frames later,
  stands at \<open>-249.5\<close>, one frame from being dropped.
\<close>

lemma trace_cycle6:
  "play (Action # ticks 47 6757 (7 / 25)) (flight \<lparr>y = 34, velocity = 23 / 4, rotation = 23 / 80\<rparr> 0 (- 125) False)
     = Some (flight \<lparr>y = 34, velocity = 23 / 4, rotation = 23 / 80\<rparr> 1 (- 391 / 2) True)"
  by (simp add: frame_eval)

lemma trace_tail:
  "play (Action # ticks 36 7086 (7 / 25)) (flight \<lparr>y = 34, velocity = 23 / 4, rotation = 23 / 80\<rparr> 1 (- 391 / 2) True)
     = Some (flight \<lparr>y = - 31 / 2, velocity = 3, rotation = 3 / 20\<rparr> 1 (- 499 / 2) True)"
  by (simp add: frame_eval)

lemma play_reachable:
  "reachable s \<Longrightarrow> play es s = Some s' \<Longrightarrow>
     (\<And>t rnd. Frame t rnd \<in> set es \<Longrightarrow> 0 \<le> rnd \<and> rnd < 1) \<Longrightarrow> reachable s'"
proof (induction es arbitrary: s)
  case Nil
  then show ?case by simp
next
  case (Cons e es)
  show ?case
  proof (cases e)
    case (Frame t rnd)
    with Cons.prems(2) have run: "play es (gameLoop t rnd s) = Some s'"
      by (simp split: if_splits)
    have "0 \<le> rnd \<and> rnd < 1"
      using Cons.prems(3) [of t rnd] Frame by simp
    then have "reachable (gameLoop t rnd s)"
      using Cons.prems(1) by (simp add: r_frame)
    from Cons.IH [OF this run] Cons.prems(3) show ?thesis by auto
  next
    case Action
    with Cons.prems(2) have run: "play es (handleJump s) = Some s'"
      by (simp split: if_splits)
    from Cons.IH [OF r_action [OF Cons.prems(1)] run] Cons.prems(3) show ?thesis by auto
  qed
qed

lemma set_ticks: "Frame t' rnd' \<in> set (ticks n t rnd) \<Longrightarrow> rnd' = rnd"
  by (induction n arbitrary: t) auto

lemma reachable_leg:
  assumes "reachable s" and "play (Action # ticks n t (7 / 25)) s = Some s'"
  shows "reachable s'"
proof (rule play_reachable [OF assms])
  fix u rnd
  assume "Frame u rnd \<in> set (Action # ticks n t (7 / 25))"
  then have "rnd = 7 / 25"
    by (auto dest: set_ticks)
  then show "0 \<le> rnd \<and> rnd < 1" by simp
qed

lemma reachable_start:
  assumes "reachable s" and "play (ticks n t (7 / 25)) (handleJump s) = Some s'"
  shows "reachable s'"
proof (rule play_reachable [OF r_action [OF assms(1)] assms(2)])
  fix u rnd
  assume "Frame u rnd \<in> set (ticks n t (7 / 25))"
  then have "rnd = 7 / 25"
    by (rule set_ticks)
  then show "0 \<le> rnd \<and> rnd < 1" by simp
qed

lemma reachable_before_pass:
  "reachable (flight \<lparr>y = 34, velocity = 23 / 4, rotation = 23 / 80\<rparr> 0 (- 125) False)"
proof -
  have "reachable (initial\<lparr>clockReady := True\<rparr>)"
    by (intro r_clock r_initial)
  note reachable_start [OF this trace_start]
  note reachable_leg [OF this trace_cycle1]
  note reachable_leg [OF this trace_cycle2]
  note reachable_leg [OF this trace_cycle3]
  note reachable_leg [OF this trace_cycle4]
  from reachable_leg [OF this trace_cycle5] show ?thesis .
qed

lemma reachable_before_retire:
  "reachable (flight \<lparr>y = - 31 / 2, velocity = 3, rotation = 3 / 20\<rparr> 1 (- 499 / 2) True)"
proof -
  note reachable_leg [OF reachable_before_pass trace_cycle6]
  from reachable_leg [OF this trace_tail] show ?thesis .
qed

section \<open>Properties\<close>

subsection \<open>World bounds\<close>

text \<open>
  C1, as amended. \<open>checkCollision\<close> reports a ground or ceiling hit exactly when the
  bird's centre is above \<open>230\<close> or below \<open>-230\<close>; the radius is not added to the centre
  in this test. With no pipe on the field this is the whole result; with pipes, a centre
  out of bounds is a collision whatever the pipes are, and a centre within bounds leaves
  the result to the loop over the pipes.
\<close>

theorem checkCollision_bounds:
  "(checkCollision [] birdY \<longleftrightarrow> birdY > 230 \<or> birdY < - 230)
   \<and> (birdY > 230 \<or> birdY < - 230 \<longrightarrow> checkCollision ps birdY)
   \<and> (\<not> (birdY > 230 \<or> birdY < - 230) \<longrightarrow> checkCollision ps birdY = checkCollision_loop ps birdY)"
  by (simp add: checkCollision_def)

theorem checkCollision_bounds_witness:
  "(checkCollision [] 235 \<longleftrightarrow> (235::real) > 230 \<or> (235::real) < - 230)
   \<and> ((235::real) > 230 \<or> (235::real) < - 230)
   \<and> checkCollision [\<lparr>x = 250, gapY = 0, passed = False\<rparr>] 235
   \<and> \<not> ((225::real) > 230 \<or> (225::real) < - 230)
   \<and> checkCollision [] 225 = checkCollision_loop [] 225
   \<and> \<not> checkCollision [] 225"
  using checkCollision_bounds [of 235 "[\<lparr>x = 250, gapY = 0, passed = False\<rparr>]"]
    checkCollision_bounds [of 225 "[]"]
  by simp

text \<open>
  C1 as stated adds the radius to the centre. At height \<open>225\<close> the sum \<open>225 + 10\<close>
  exceeds \<open>230\<close>, and the test reports nothing.
\<close>

theorem checkCollision_radius_counterexample:
  "\<not> (checkCollision [] 225 \<longleftrightarrow> (225 + birdRadius > 230 \<or> 225 - birdRadius < - 230))"
  by (simp add: checkCollision_def game_consts)

subsection \<open>Pipes\<close>




subsection \<open>Gravity step\<close>

text \<open>
  C6. For every bird, the gravity step sets the velocity to
  \<open>min (velocity + GRAVITY) MAX_VELOCITY\<close>, which never exceeds \<open>MAX_VELOCITY\<close>, and
  sets the tilt to that velocity times \<open>0.05\<close> clamped to \<open>[-0.5, 0.5]\<close>, so the tilt
  lies in that interval whatever the velocity.
\<close>

theorem newBird_velocity_tilt:
  "velocity (newBird b) = min (velocity b + GRAVITY) MAX_VELOCITY
   \<and> velocity (newBird b) \<le> MAX_VELOCITY
   \<and> rotation (newBird b) = max (- 0.5) (min 0.5 (velocity (newBird b) * 0.05))
   \<and> - 0.5 \<le> rotation (newBird b) \<and> rotation (newBird b) \<le> 0.5"
  by (simp add: newBird_def Let_def)

theorem newBird_velocity_tilt_witness:
  "velocity (newBird \<lparr>y = 0, velocity = 10, rotation = 0\<rparr>) = 6
   \<and> rotation (newBird \<lparr>y = 0, velocity = 10, rotation = 0\<rparr>) = 3 / 10
   \<and> velocity (newBird \<lparr>y = 0, velocity = - 20, rotation = 0\<rparr>) = - 79 / 4
   \<and> rotation (newBird \<lparr>y = 0, velocity = - 20, rotation = 0\<rparr>) = - 1 / 2"
  using newBird_velocity_tilt [of "\<lparr>y = 0, velocity = 10, rotation = 0\<rparr>"]
    newBird_velocity_tilt [of "\<lparr>y = 0, velocity = - 20, rotation = 0\<rparr>"]
  by (simp add: game_consts)

subsection \<open>Spawned pipes\<close>

text \<open>
  C8. Whatever value in \<open>[0, 1)\<close> the random source returns, the spawned pipe's gap
  centre lies in \<open>[-100, 100]\<close>.
\<close>

theorem newPipe_gapY_range:
  assumes "0 \<le> rnd" and "rnd < 1"
  shows "- 100 \<le> gapY (newPipe rnd) \<and> gapY (newPipe rnd) \<le> 100"
  using assms by (simp add: newPipe_def Let_def)

theorem newPipe_gapY_range_witness:
  "(0::real) \<le> 1 / 2 \<and> (1::real) / 2 < 1
   \<and> - 100 \<le> gapY (newPipe (1 / 2)) \<and> gapY (newPipe (1 / 2)) \<le> 100"
  using newPipe_gapY_range [of "1 / 2"] by simp

text \<open>
  C7, as amended. A frame in the Playing state appends a new pipe to the kept ones
  exactly when \<open>currentTime - lastPipeTime > 3000\<close>, and then records \<open>currentTime\<close> as
  the spawn time; otherwise the list is the kept pipes and the spawn time stays. The new
  pipe is unflagged and stands one pipe width beyond the right edge of the world, at
  \<open>GAME_WIDTH / 2 + PIPE_WIDTH = 250\<close>.
\<close>

theorem gameLoop_spawn:
  assumes "gameState s = Playing" and "clockReady s"
  shows "pipes (gameLoop currentTime rnd s) =
           fst (filterPipes (pipes s)) @ (if currentTime - lastPipeTime s > 3000 then [newPipe rnd] else [])
         \<and> lastPipeTime (gameLoop currentTime rnd s) =
           (if currentTime - lastPipeTime s > 3000 then currentTime else lastPipeTime s)
         \<and> x (newPipe rnd) = GAME_WIDTH / 2 + PIPE_WIDTH
         \<and> x (newPipe rnd) = 250
         \<and> \<not> passed (newPipe rnd)"
  using assms by (simp add: gameLoop_fields) (simp add: newPipe_def Let_def game_consts)

theorem gameLoop_spawn_witness:
  "gameState (initial\<lparr>gameState := Playing, clockReady := True\<rparr>) = Playing
   \<and> clockReady (initial\<lparr>gameState := Playing, clockReady := True\<rparr>)
   \<and> pipes (gameLoop 3001 (1 / 2) (initial\<lparr>gameState := Playing, clockReady := True\<rparr>))
       = [\<lparr>x = 250, gapY = 0, passed = False\<rparr>]
   \<and> lastPipeTime (gameLoop 3001 (1 / 2) (initial\<lparr>gameState := Playing, clockReady := True\<rparr>)) = 3001
   \<and> pipes (gameLoop 3000 (1 / 2) (initial\<lparr>gameState := Playing, clockReady := True\<rparr>)) = []
   \<and> lastPipeTime (gameLoop 3000 (1 / 2) (initial\<lparr>gameState := Playing, clockReady := True\<rparr>)) = 0"
  using gameLoop_spawn [of "initial\<lparr>gameState := Playing, clockReady := True\<rparr>" 3001 "1 / 2"]
    gameLoop_spawn [of "initial\<lparr>gameState := Playing, clockReady := True\<rparr>" 3000 "1 / 2"]
  by (simp add: initial_def newPipe_def Let_def game_consts)

text \<open>
  C7 as stated puts the new pipe at the right edge of the world. The world is
  \<open>GAME_WIDTH\<close> wide and centred, so its right edge is \<open>GAME_WIDTH / 2 = 200\<close>, as its
  left edge is the \<open>- GAME_WIDTH / 2\<close> of the test that drops a pipe. The pipe spawned on
  the first frame stands at \<open>250\<close>.
\<close>

theorem spawn_position_counterexample:
  "5000 - lastPipeTime (initial\<lparr>gameState := Playing, clockReady := True\<rparr>) > 3000
   \<and> x (last (pipes (gameLoop 5000 (1 / 2) (initial\<lparr>gameState := Playing, clockReady := True\<rparr>)))) = 250
   \<and> x (last (pipes (gameLoop 5000 (1 / 2) (initial\<lparr>gameState := Playing, clockReady := True\<rparr>))))
       \<noteq> GAME_WIDTH / 2"
  by (simp add: gameLoop_def initial_def newPipe_def Let_def game_consts)


subsection \<open>Input actions\<close>

text \<open>
  C4. \<open>handleJump\<close> is defined on every state and its effect depends on \<open>gameState\<close>
  alone. From Waiting it sets the state to Playing and leaves score, bird and pipes as
  they are; in every reachable Waiting state the score is \<open>0\<close>, so it still is
  afterwards. From Playing it sets the bird's velocity to \<open>JUMP_FORCE\<close> and nothing
  else. From GameOver it empties the pipe list, resets the bird, sets the score to \<open>0\<close>
  and the state to Waiting, not Playing: a second action is what starts the game. The
  high score is never touched.
\<close>

theorem handleJump_transitions:
  "(gameState s = Waiting \<longrightarrow>
      gameState (handleJump s) = Playing \<and> score (handleJump s) = score s
      \<and> bird (handleJump s) = bird s \<and> pipes (handleJump s) = pipes s)
   \<and> (reachable s \<and> gameState s = Waiting \<longrightarrow> score (handleJump s) = 0)
   \<and> (gameState s = Playing \<longrightarrow>
      gameState (handleJump s) = Playing \<and> bird (handleJump s) = (bird s)\<lparr>velocity := JUMP_FORCE\<rparr>
      \<and> score (handleJump s) = score s \<and> pipes (handleJump s) = pipes s)
   \<and> (gameState s = GameOver \<longrightarrow>
      pipes (handleJump s) = [] \<and> bird (handleJump s) = \<lparr>y = 0, velocity = 0, rotation = 0\<rparr>
      \<and> score (handleJump s) = 0 \<and> gameState (handleJump s) = Waiting
      \<and> gameState (handleJump s) \<noteq> Playing
      \<and> gameState (handleJump (handleJump s)) = Playing)
   \<and> highScore (handleJump s) = highScore s"
proof -
  have "reachable s \<and> gameState s = Waiting \<longrightarrow> score (handleJump s) = 0"
    using reachable_Waiting [of s] by (simp add: handleJump_def Let_def)
  then show ?thesis
    by (cases "gameState s") (simp_all add: handleJump_def Let_def)
qed

theorem handleJump_transitions_witness:
  "reachable initial \<and> gameState initial = Waiting
   \<and> gameState (handleJump initial) = Playing \<and> score (handleJump initial) = 0
   \<and> gameState (initial\<lparr>gameState := Playing\<rparr>) = Playing
   \<and> velocity (bird (handleJump (initial\<lparr>gameState := Playing\<rparr>))) = - 6
   \<and> gameState (handleJump (initial\<lparr>gameState := Playing\<rparr>)) = Playing
   \<and> gameState (initial\<lparr>gameState := GameOver, score := 3\<rparr>) = GameOver
   \<and> score (handleJump (initial\<lparr>gameState := GameOver, score := 3\<rparr>)) = 0
   \<and> gameState (handleJump (initial\<lparr>gameState := GameOver, score := 3\<rparr>)) = Waiting
   \<and> gameState (handleJump (handleJump (initial\<lparr>gameState := GameOver, score := 3\<rparr>))) = Playing"
  using handleJump_transitions [of initial]
    handleJump_transitions [of "initial\<lparr>gameState := Playing\<rparr>"]
    handleJump_transitions [of "initial\<lparr>gameState := GameOver, score := 3\<rparr>"]
    r_initial
  by (simp add: initial_def JUMP_FORCE_def)

subsection \<open>Scoring\<close>

text \<open>
  C5. Take any run of \<open>gameLoop\<close> calls and input actions during which the game is in
  progress. The score at its end is the score at its start plus what each pipe
  contributes over the frames it lives through, the pipes on the field at the start
  and the pipes spawned on the way alike, and the pipe list at the end holds each of
  these pipes as it then stands, unless it has been dropped. Within one call the score
  grows by the number of pipes that are flagged in it, that is the unflagged, not
  retired pipes whose right edge is now left of the bird; a call outside the Playing
  state leaves the score alone, and an input action never raises it.

  What one pipe contributes: the pipes of a frame are handled independently of one
  another. An unflagged pipe whose right edge was not yet left of the bird and now is
  gets flagged and contributes exactly 1; one whose right edge is still not left of the
  bird stays unflagged and contributes 0; a flagged pipe stays flagged and contributes
  0. So over any number of frames one pipe contributes at most 1, a flagged pipe
  contributes nothing more, and once the pipe has been dropped its count is final. A
  pipe spawned by the game contributes nothing during its first 250 frames and exactly
  1 from frame 251 on.
\<close>

theorem pipe_passed_once:
  "(play es s = Some s' \<longrightarrow>
      score s' = score s + (\<Sum>q\<leftarrow>pipes s. snd (pipeLifetime (frameCount es) q))
                  + spawnScore es (lastPipeTime s)
      \<and> pipes s' = concat (map (survivor (frameCount es)) (pipes s)) @ spawnPipes es (lastPipeTime s))
   \<and> (gameState s = Playing \<and> clockReady s \<longrightarrow>
        score (gameLoop currentTime rnd s) =
          score s + length (filter (\<lambda>q. \<not> passed q \<and> \<not> x q - PIPE_SPEED < - GAME_WIDTH / 2 - PIPE_WIDTH
                                          \<and> x q - PIPE_SPEED + PIPE_WIDTH / 2 < birdX) (pipes s)))
   \<and> (\<not> (gameState s = Playing \<and> clockReady s) \<longrightarrow> score (gameLoop currentTime rnd s) = score s)
   \<and> score (handleJump s) \<le> score s
   \<and> filterPipes (p # ps) =
     (fst (filterPipes [p]) @ fst (filterPipes ps), snd (filterPipes [p]) + snd (filterPipes ps))
   \<and> snd (filterPipes ps) = (\<Sum>q\<leftarrow>ps. snd (filterPipes [q]))
   \<and> (\<not> passed p \<and> birdX \<le> x p + PIPE_WIDTH / 2 \<and> x p - PIPE_SPEED + PIPE_WIDTH / 2 < birdX \<longrightarrow>
        filterPipes [p] = ([p\<lparr>x := x p - PIPE_SPEED, passed := True\<rparr>], 1))
   \<and> (\<not> passed p \<and> birdX \<le> x p - PIPE_SPEED + PIPE_WIDTH / 2 \<longrightarrow>
        filterPipes [p] = ([p\<lparr>x := x p - PIPE_SPEED\<rparr>], 0))
   \<and> (passed p \<longrightarrow> snd (filterPipes [p]) = 0 \<and> (\<forall>q\<in>set (fst (filterPipes [p])). passed q))
   \<and> snd (pipeLifetime n p) \<le> 1
   \<and> (passed p \<longrightarrow> snd (pipeLifetime n p) = 0)
   \<and> (fst (pipeLifetime n p) = None \<longrightarrow> pipeLifetime (n + m) p = pipeLifetime n p)
   \<and> snd (pipeLifetime n (newPipe rnd)) = (if 251 \<le> n then 1 else 0)"
proof -
  have run: "play es s = Some s' \<longrightarrow>
      score s' = score s + (\<Sum>q\<leftarrow>pipes s. snd (pipeLifetime (frameCount es) q))
                  + spawnScore es (lastPipeTime s)
      \<and> pipes s' = concat (map (survivor (frameCount es)) (pipes s)) @ spawnPipes es (lastPipeTime s)"
    using play_account [of es s s'] by blast
  have frame: "gameState s = Playing \<and> clockReady s \<longrightarrow>
        score (gameLoop currentTime rnd s) =
          score s + length (filter (\<lambda>q. \<not> passed q \<and> \<not> x q - PIPE_SPEED < - GAME_WIDTH / 2 - PIPE_WIDTH
                                          \<and> x q - PIPE_SPEED + PIPE_WIDTH / 2 < birdX) (pipes s))"
    by (simp add: gameLoop_fields(4) filterPipes_count del: filterPipes.simps)
  have idle: "\<not> (gameState s = Playing \<and> clockReady s) \<longrightarrow> score (gameLoop currentTime rnd s) = score s"
    using gameLoop_idle [of s currentTime rnd] by auto
  have act: "score (handleJump s) \<le> score s"
    by (cases "gameState s") (simp_all add: handleJump_def Let_def)
  have a: "\<not> passed p \<and> birdX \<le> x p + PIPE_WIDTH / 2 \<and> x p - PIPE_SPEED + PIPE_WIDTH / 2 < birdX \<longrightarrow>
        filterPipes [p] = ([p\<lparr>x := x p - PIPE_SPEED, passed := True\<rparr>], 1)"
    by (simp add: filterPipes_single) (simp add: game_consts)
  have b: "\<not> passed p \<and> birdX \<le> x p - PIPE_SPEED + PIPE_WIDTH / 2 \<longrightarrow>
        filterPipes [p] = ([p\<lparr>x := x p - PIPE_SPEED\<rparr>], 0)"
    by (simp add: filterPipes_single) (simp add: game_consts)
  have c: "passed p \<longrightarrow> snd (filterPipes [p]) = 0 \<and> (\<forall>q\<in>set (fst (filterPipes [p])). passed q)"
    by (simp add: Let_def)
  show ?thesis
    using run frame idle act a b c filterPipes_Cons [of p ps] filterPipes_score_sum [of ps]
      pipeLifetime_le_1 [of n p] pipeLifetime_passed [of p n] pipeLifetime_removed [of n p m]
      newPipe_lifetime [of n rnd]
    by blast
qed

text \<open>
  From the state reached after frame 251 of the game above the player jumps and two
  frames follow. The first flags the pipe and makes the score 1, the second leaves it
  at 1; the pipe's own count over the two frames is 1 and nothing is spawned.
\<close>

theorem pipe_passed_once_witness:
  "reachable (flight \<lparr>y = 34, velocity = 23 / 4, rotation = 23 / 80\<rparr> 0 (- 125) False)
   \<and> play [Action, Frame 6757 (7 / 25), Frame 6764 (7 / 25)]
        (flight \<lparr>y = 34, velocity = 23 / 4, rotation = 23 / 80\<rparr> 0 (- 125) False)
       = Some (flight \<lparr>y = 91 / 4, velocity = - 11 / 2, rotation = - 11 / 40\<rparr> 1 (- 128) True)
   \<and> score (flight \<lparr>y = 34, velocity = 23 / 4, rotation = 23 / 80\<rparr> 0 (- 125) False) = 0
   \<and> score (flight \<lparr>y = 91 / 4, velocity = - 11 / 2, rotation = - 11 / 40\<rparr> 1 (- 128) True) = 1
   \<and> snd (pipeLifetime 2 \<lparr>x = - 125, gapY = - 44, passed = False\<rparr>) = 1
   \<and> spawnScore [Action, Frame 6757 (7 / 25), Frame 6764 (7 / 25)] 5000 = 0
   \<and> score (gameLoop 6757 (7 / 25)
        (handleJump (flight \<lparr>y = 34, velocity = 23 / 4, rotation = 23 / 80\<rparr> 0 (- 125) False))) = 1
   \<and> \<not> passed \<lparr>x = - 125, gapY = 0, passed = False\<rparr>
   \<and> birdX \<le> x \<lparr>x = - 125, gapY = 0, passed = False\<rparr> + PIPE_WIDTH / 2
   \<and> x \<lparr>x = - 125, gapY = 0, passed = False\<rparr> - PIPE_SPEED + PIPE_WIDTH / 2 < birdX
   \<and> filterPipes [\<lparr>x = - 125, gapY = 0, passed = False\<rparr>]
       = ([\<lparr>x = - 126.5, gapY = 0, passed = True\<rparr>], 1)
   \<and> birdX \<le> x \<lparr>x = - 123.5, gapY = 0, passed = False\<rparr> - PIPE_SPEED + PIPE_WIDTH / 2
   \<and> filterPipes [\<lparr>x = - 123.5, gapY = 0, passed = False\<rparr>]
       = ([\<lparr>x = - 125, gapY = 0, passed = False\<rparr>], 0)
   \<and> passed \<lparr>x = - 126.5, gapY = 0, passed = True\<rparr>
   \<and> snd (filterPipes [\<lparr>x = - 126.5, gapY = 0, passed = True\<rparr>]) = 0
   \<and> snd (pipeLifetime 2 \<lparr>x = - 126.5, gapY = 0, passed = True\<rparr>) = 0
   \<and> fst (pipeLifetime 1 \<lparr>x = - 249, gapY = 0, passed = True\<rparr>) = None
   \<and> pipeLifetime (1 + 1) \<lparr>x = - 249, gapY = 0, passed = True\<rparr>
       = pipeLifetime 1 \<lparr>x = - 249, gapY = 0, passed = True\<rparr>"
proof -
  have run: "play [Action, Frame 6757 (7 / 25), Frame 6764 (7 / 25)]
        (flight \<lparr>y = 34, velocity = 23 / 4, rotation = 23 / 80\<rparr> 0 (- 125) False)
       = Some (flight \<lparr>y = 91 / 4, velocity = - 11 / 2, rotation = - 11 / 40\<rparr> 1 (- 128) True)"
    by (simp add: frame_eval)
  have one: "snd (pipeLifetime 2 \<lparr>x = - 125, gapY = - 44, passed = False\<rparr>) = 1"
    by (simp add: eval_nat_numeral Let_def game_consts)
  have none: "spawnScore [Action, Frame 6757 (7 / 25), Frame 6764 (7 / 25)] 5000 = 0"
    by simp
  have first: "score (gameLoop 6757 (7 / 25)
        (handleJump (flight \<lparr>y = 34, velocity = 23 / 4, rotation = 23 / 80\<rparr> 0 (- 125) False))) = 1"
    by (simp add: frame_eval)
  show ?thesis
    using pipe_passed_once [where es = "[Action, Frame 6757 (7 / 25), Frame 6764 (7 / 25)]"
        and s = "flight \<lparr>y = 34, velocity = 23 / 4, rotation = 23 / 80\<rparr> 0 (- 125) False"
        and s' = "flight \<lparr>y = 91 / 4, velocity = - 11 / 2, rotation = - 11 / 40\<rparr> 1 (- 128) True"
        and p = "\<lparr>x = - 125, gapY = 0, passed = False\<rparr>" and ps = "[]" and n = 0 and m = 0
        and rnd = 0 and currentTime = 0]
      pipe_passed_once [where es = "[]" and s = initial and s' = initial
        and p = "\<lparr>x = - 123.5, gapY = 0, passed = False\<rparr>" and ps = "[]" and n = 0 and m = 0
        and rnd = 0 and currentTime = 0]
      pipe_passed_once [where es = "[]" and s = initial and s' = initial
        and p = "\<lparr>x = - 126.5, gapY = 0, passed = True\<rparr>" and ps = "[]" and n = 2 and m = 0
        and rnd = 0 and currentTime = 0]
      pipe_passed_once [where es = "[]" and s = initial and s' = initial
        and p = "\<lparr>x = - 249, gapY = 0, passed = True\<rparr>" and ps = "[]" and n = 1 and m = 1
        and rnd = 0 and currentTime = 0]
      reachable_before_pass run one none first
    by (simp add: flight_def game_consts)
qed

subsection \<open>Collision and high score\<close>

text \<open>
  C2. When a frame in the Playing state detects a collision, the state becomes GameOver
  and the high score becomes the larger of the previous high score and the score the
  frame started with. The score itself has by then been raised by the passes counted
  in this frame, so a pass counted in the frame of the collision is in the new score and
  not in the new high score.
\<close>

theorem gameLoop_collision_highScore:
  assumes "gameState s = Playing" and "clockReady s"
    and "checkCollision (pipes (gameLoop currentTime rnd s)) (y (bird (gameLoop currentTime rnd s)))"
  shows "gameState (gameLoop currentTime rnd s) = GameOver
         \<and> highScore (gameLoop currentTime rnd s) = max (highScore s) (score s)
         \<and> score (gameLoop currentTime rnd s) = score s + snd (filterPipes (pipes s))"
  using assms by (simp add: gameLoop_fields)

text \<open>
  The state reached after frame 251 of the game above, when the player does not jump
  again: frame 252 flags the pipe, the bird leaves the gap at the bottom, and the game
  ends with score \<open>1\<close> and high score \<open>0\<close>.
\<close>

theorem gameLoop_collision_highScore_witness:
  "reachable (flight \<lparr>y = 34, velocity = 23 / 4, rotation = 23 / 80\<rparr> 0 (- 125) False)
   \<and> gameState (flight \<lparr>y = 34, velocity = 23 / 4, rotation = 23 / 80\<rparr> 0 (- 125) False) = Playing
   \<and> clockReady (flight \<lparr>y = 34, velocity = 23 / 4, rotation = 23 / 80\<rparr> 0 (- 125) False)
   \<and> score (flight \<lparr>y = 34, velocity = 23 / 4, rotation = 23 / 80\<rparr> 0 (- 125) False) = 0
   \<and> highScore (flight \<lparr>y = 34, velocity = 23 / 4, rotation = 23 / 80\<rparr> 0 (- 125) False) = 0
   \<and> checkCollision
        (pipes (gameLoop 6757 (7 / 25)
           (flight \<lparr>y = 34, velocity = 23 / 4, rotation = 23 / 80\<rparr> 0 (- 125) False)))
        (y (bird (gameLoop 6757 (7 / 25)
           (flight \<lparr>y = 34, velocity = 23 / 4, rotation = 23 / 80\<rparr> 0 (- 125) False))))
   \<and> gameState (gameLoop 6757 (7 / 25)
        (flight \<lparr>y = 34, velocity = 23 / 4, rotation = 23 / 80\<rparr> 0 (- 125) False)) = GameOver
   \<and> score (gameLoop 6757 (7 / 25)
        (flight \<lparr>y = 34, velocity = 23 / 4, rotation = 23 / 80\<rparr> 0 (- 125) False)) = 1
   \<and> highScore (gameLoop 6757 (7 / 25)
        (flight \<lparr>y = 34, velocity = 23 / 4, rotation = 23 / 80\<rparr> 0 (- 125) False)) = 0"
proof -
  have hit: "checkCollision
        (pipes (gameLoop 6757 (7 / 25)
           (flight \<lparr>y = 34, velocity = 23 / 4, rotation = 23 / 80\<rparr> 0 (- 125) False)))
        (y (bird (gameLoop 6757 (7 / 25)
           (flight \<lparr>y = 34, velocity = 23 / 4, rotation = 23 / 80\<rparr> 0 (- 125) False))))"
    by (simp add: frame_eval)
  have st: "gameState (flight \<lparr>y = 34, velocity = 23 / 4, rotation = 23 / 80\<rparr> 0 (- 125) False) = Playing"
    "clockReady (flight \<lparr>y = 34, velocity = 23 / 4, rotation = 23 / 80\<rparr> 0 (- 125) False)"
    by (simp_all add: flight_def)
  show ?thesis
    using gameLoop_collision_highScore [OF st hit] reachable_before_pass hit
    by (simp add: flight_def game_consts)
qed

subsection \<open>Order of the pipe operations\<close>

text \<open>
  C9. The pipe handling of a frame is the three passes advance, retire, mark passed, in
  this order, and in the Playing state the new pipe, if one is due, is appended after
  them. In every reachable state each pipe that the next frame retires is already
  flagged, so no pass goes uncounted. A pipe spawned in a frame never changes that
  frame's collision result: the state after the frame is GameOver exactly when the bird
  collides with the kept pipes.
\<close>

theorem frame_order:
  "filterPipes ps = markPassed (retireOffscreen (advance ps))
   \<and> (gameState s = Playing \<and> clockReady s \<longrightarrow>
        pipes (gameLoop currentTime rnd s) =
          fst (markPassed (retireOffscreen (advance (pipes s))))
          @ (if currentTime - lastPipeTime s > 3000 then [newPipe rnd] else [])
        \<and> gameState (gameLoop currentTime rnd s) =
          (if checkCollision (fst (filterPipes (pipes s))) (y (newBird (bird s)))
           then GameOver else Playing))
   \<and> (reachable s \<longrightarrow>
        (\<forall>p\<in>set (pipes s). x p - PIPE_SPEED < - GAME_WIDTH / 2 - PIPE_WIDTH \<longrightarrow> passed p))
   \<and> checkCollision (ps @ [newPipe rnd]) birdY = checkCollision ps birdY"
proof -
  have a: "gameState s = Playing \<and> clockReady s \<longrightarrow>
        pipes (gameLoop currentTime rnd s) =
          fst (markPassed (retireOffscreen (advance (pipes s))))
          @ (if currentTime - lastPipeTime s > 3000 then [newPipe rnd] else [])
        \<and> gameState (gameLoop currentTime rnd s) =
          (if checkCollision (fst (filterPipes (pipes s))) (y (newBird (bird s)))
           then GameOver else Playing)"
    by (simp add: gameLoop_fields checkCollision_spawned flip: filterPipes_phases)
  have b: "reachable s \<longrightarrow>
        (\<forall>p\<in>set (pipes s). x p - PIPE_SPEED < - GAME_WIDTH / 2 - PIPE_WIDTH \<longrightarrow> passed p)"
  proof (intro impI ballI)
    fix p
    assume "reachable s" and p: "p \<in> set (pipes s)"
      and r: "x p - PIPE_SPEED < - GAME_WIDTH / 2 - PIPE_WIDTH"
    then have "x p + PIPE_WIDTH / 2 < - GAME_WIDTH / 4 \<longrightarrow> passed p"
      using reachable_pipes_ok [of s] by (simp add: pipes_ok_def)
    moreover have "x p + PIPE_WIDTH / 2 < - GAME_WIDTH / 4"
      using r by (simp add: game_consts)
    ultimately show "passed p" by simp
  qed
  from a b show ?thesis
    using filterPipes_phases [of ps] checkCollision_spawned [of ps rnd birdY] by blast
qed

text \<open>
  The state reached after frame 334 of the game above, when the player keeps jumping:
  the pipe stands at \<open>-249.5\<close>, flagged and counted, and the next frame drops it. The
  very first frame of that game spawns a pipe and ends in the Playing state. The order
  of retiring and marking shows on an unflagged pipe at \<open>-249\<close>, which no reachable
  state holds: it is dropped without being counted.
\<close>

theorem frame_order_witness:
  "reachable (flight \<lparr>y = - 31 / 2, velocity = 3, rotation = 3 / 20\<rparr> 1 (- 499 / 2) True)
   \<and> pipes (flight \<lparr>y = - 31 / 2, velocity = 3, rotation = 3 / 20\<rparr> 1 (- 499 / 2) True)
       = [\<lparr>x = - 499 / 2, gapY = - 44, passed = True\<rparr>]
   \<and> x \<lparr>x = - 499 / 2, gapY = - 44, passed = True\<rparr> - PIPE_SPEED < - GAME_WIDTH / 2 - PIPE_WIDTH
   \<and> passed \<lparr>x = - 499 / 2, gapY = - 44, passed = True\<rparr>
   \<and> pipes (gameLoop 7338 (7 / 25)
        (flight \<lparr>y = - 31 / 2, velocity = 3, rotation = 3 / 20\<rparr> 1 (- 499 / 2) True)) = []
   \<and> score (gameLoop 7338 (7 / 25)
        (flight \<lparr>y = - 31 / 2, velocity = 3, rotation = 3 / 20\<rparr> 1 (- 499 / 2) True)) = 1
   \<and> gameState (handleJump (initial\<lparr>clockReady := True\<rparr>)) = Playing
   \<and> clockReady (handleJump (initial\<lparr>clockReady := True\<rparr>))
   \<and> pipes (gameLoop 5000 (7 / 25) (handleJump (initial\<lparr>clockReady := True\<rparr>)))
       = [\<lparr>x = 250, gapY = - 44, passed = False\<rparr>]
   \<and> gameState (gameLoop 5000 (7 / 25) (handleJump (initial\<lparr>clockReady := True\<rparr>))) = Playing
   \<and> markPassed (retireOffscreen (advance [\<lparr>x = - 249, gapY = 0, passed = False\<rparr>])) = ([], 0)
   \<and> filterPipes [\<lparr>x = - 249, gapY = 0, passed = False\<rparr>] = ([], 0)"
  using frame_order [where s = "flight \<lparr>y = - 31 / 2, velocity = 3, rotation = 3 / 20\<rparr> 1 (- 499 / 2) True"
      and ps = "[\<lparr>x = - 499 / 2, gapY = - 44, passed = True\<rparr>]" and currentTime = 7338
      and rnd = "7 / 25" and birdY = 0]
    frame_order [where s = "handleJump (initial\<lparr>clockReady := True\<rparr>)"
      and ps = "[\<lparr>x = - 249, gapY = 0, passed = False\<rparr>]" and currentTime = 5000
      and rnd = "7 / 25" and birdY = 0]
    reachable_before_retire
  by (simp add: initial_def frame_eval advance_def retireOffscreen_def markPassed_def crossing_def)

subsection \<open>The first frame of a run\<close>

text \<open>
  C10. The spawn time is \<open>0\<close> in the initial state and in every reachable Waiting state,
  the reset after a game over included. So when a game is started from such a state and
  the clock exists, the first frame, at any time above \<open>3000\<close>, spawns a pipe at once,
  whatever number of further actions came before it, and records its own time as the
  spawn time.
\<close>

theorem first_frame_spawns:
  assumes "reachable s" and "gameState s = Waiting" and "clockReady s" and "3000 < currentTime"
  shows "lastPipeTime initial = 0
         \<and> lastPipeTime s = 0
         \<and> gameState ((handleJump ^^ Suc n) s) = Playing
         \<and> currentTime - lastPipeTime ((handleJump ^^ Suc n) s) > 3000
         \<and> pipes (gameLoop currentTime rnd ((handleJump ^^ Suc n) s)) = [newPipe rnd]
         \<and> lastPipeTime (gameLoop currentTime rnd ((handleJump ^^ Suc n) s)) = currentTime"
proof -
  let ?s1 = "handleJump s"
  have w: "pipes s = []" "lastPipeTime s = 0"
    using assms(1,2) reachable_Waiting [of s] by simp_all
  have s1: "gameState ?s1 = Playing" "pipes ?s1 = []" "lastPipeTime ?s1 = 0" "clockReady ?s1"
    using assms(2,3) w by (simp_all add: handleJump_def Let_def)
  have eq: "(handleJump ^^ Suc n) s = (handleJump ^^ n) ?s1"
    by (simp add: funpow_swap1)
  have sn: "gameState ((handleJump ^^ n) ?s1) = Playing" "pipes ((handleJump ^^ n) ?s1) = []"
    "lastPipeTime ((handleJump ^^ n) ?s1) = 0" "clockReady ((handleJump ^^ n) ?s1)"
    using handleJump_Playing_funpow [of ?s1 n] s1 by simp_all
  show ?thesis
    unfolding eq using sn w assms(4) by (simp add: gameLoop_fields initial_def)
qed

text \<open>
  At the first launch, and after the game above has ended in frame 252 and an action has
  reset it.
\<close>

theorem first_frame_spawns_witness:
  "reachable (initial\<lparr>clockReady := True\<rparr>)
   \<and> gameState (initial\<lparr>clockReady := True\<rparr>) = Waiting
   \<and> clockReady (initial\<lparr>clockReady := True\<rparr>)
   \<and> (3000::int) < 3001
   \<and> pipes (gameLoop 3001 (1 / 2) ((handleJump ^^ Suc 0) (initial\<lparr>clockReady := True\<rparr>)))
       = [\<lparr>x = 250, gapY = 0, passed = False\<rparr>]
   \<and> lastPipeTime (gameLoop 3001 (1 / 2) ((handleJump ^^ Suc 0) (initial\<lparr>clockReady := True\<rparr>))) = 3001
   \<and> reachable (handleJump (gameLoop 6757 (7 / 25)
        (flight \<lparr>y = 34, velocity = 23 / 4, rotation = 23 / 80\<rparr> 0 (- 125) False)))
   \<and> gameState (handleJump (gameLoop 6757 (7 / 25)
        (flight \<lparr>y = 34, velocity = 23 / 4, rotation = 23 / 80\<rparr> 0 (- 125) False))) = Waiting
   \<and> lastPipeTime (handleJump (gameLoop 6757 (7 / 25)
        (flight \<lparr>y = 34, velocity = 23 / 4, rotation = 23 / 80\<rparr> 0 (- 125) False))) = 0
   \<and> pipes (gameLoop 9000 (1 / 2) ((handleJump ^^ Suc 1) (handleJump (gameLoop 6757 (7 / 25)
        (flight \<lparr>y = 34, velocity = 23 / 4, rotation = 23 / 80\<rparr> 0 (- 125) False)))))
       = [\<lparr>x = 250, gapY = 0, passed = False\<rparr>]"
proof -
  have r1: "reachable (initial\<lparr>clockReady := True\<rparr>)"
    by (intro r_clock r_initial)
  have r2: "reachable (handleJump (gameLoop 6757 (7 / 25)
        (flight \<lparr>y = 34, velocity = 23 / 4, rotation = 23 / 80\<rparr> 0 (- 125) False)))"
    by (intro r_action r_frame reachable_before_pass) simp_all
  have w2: "handleJump (gameLoop 6757 (7 / 25)
        (flight \<lparr>y = 34, velocity = 23 / 4, rotation = 23 / 80\<rparr> 0 (- 125) False))
      = initial\<lparr>clockReady := True\<rparr>"
    by (simp add: initial_def frame_eval)
  show ?thesis
    using first_frame_spawns [OF r1, of 3001 0 "1 / 2"]
      first_frame_spawns [OF r2, of 9000 1 "1 / 2"] r1 r2
    by (simp add: w2) (simp add: initial_def newPipe_def Let_def game_consts)
qed


end
